theory Spec2Isabelle
  imports Complex_Main "HOL-Library.Word" "HOL-Library.Option_ord"
begin

section \<open>Data model\<close>

text \<open>
  Instants (Go \<^verbatim>\<open>time.Time\<close>) are integers on one time line (nanoseconds);
  \<^verbatim>\<open>a.Before(b)\<close> is \<open>a < b\<close>. Durations are differences of instants. The Go
  \<^verbatim>\<open>Sub\<close> saturates at the ends of the int64 range, which does not change the
  outcome of the comparison with a timeout inside that range.
\<close>

type_synonym time = int

text \<open>The OCPP 1.6 message types of the protocol library, field by field.\<close>

record SampledValue =
  Value :: string
  Context :: string
  Format :: string
  Measurand :: string
  Phase :: string
  Location :: string
  Unit :: string

record MeterValue =
  MV_Timestamp :: "time option"
  MV_SampledValue :: "SampledValue list"

record MeterValuesRequest =
  MVR_ConnectorId :: int
  MVR_TransactionId :: "int option"
  MVR_MeterValue :: "MeterValue list"

record StatusNotificationRequest =
  ConnectorId :: int
  ErrorCode :: string
  Info :: string
  Status :: string
  Timestamp :: "time option"
  VendorId :: string
  VendorErrorCode :: string

datatype MeterValuesConfirmation = MeterValuesConfirmation

datatype StatusNotificationConfirmation = StatusNotificationConfirmation

definition ChargePointStatusCharging :: string where
  "ChargePointStatusCharging = ''Charging''"

definition ChargePointStatusSuspendedEV :: string where
  "ChargePointStatusSuspendedEV = ''SuspendedEV''"

definition ChargePointStatusSuspendedEVSE :: string where
  "ChargePointStatusSuspendedEVSE = ''SuspendedEVSE''"

definition MeasurandPowerActiveImport :: string where
  "MeasurandPowerActiveImport = ''Power.Active.Import''"

definition MeasurandCurrentImport :: string where
  "MeasurandCurrentImport = ''Current.Import''"

definition UnitOfMeasureW :: string where
  "UnitOfMeasureW = ''W''"

definition UnitOfMeasureA :: string where
  "UnitOfMeasureA = ''A''"

text \<open>A Go channel that is only ever closed: closing it twice panics.\<close>

datatype chan = Open | Closed

datatype panic = CloseOfClosedChannel | NilDereference

text \<open>
  The connector. The declaration of the struct is not among the sources; the fields are
  the ones its methods read and write. \<open>clock\<close> is the connector's clock as the
  sequence of its readings, \<open>clockReads\<close> the number of readings taken so far, so that
  any clock (also one that jumps backwards) is an instance. \<open>remoteStarts\<close> records the
  outbound remote-start commands, oldest first. \<open>measurements\<close> is the Go map, made by
  the constructor.
\<close>

record Connector =
  clock :: "nat \<Rightarrow> time"
  clockReads :: nat
  conn_id :: int
  status :: "StatusNotificationRequest option"
  statusC :: chan
  measurements :: "string \<rightharpoonup> SampledValue"
  meterUpdated :: time
  txnId :: int
  idTag :: string
  remoteIdTag :: string
  remoteStarts :: "string list"

definition Now :: "Connector \<Rightarrow> time \<times> Connector" where
  "Now conn = (clock conn (clockReads conn), conn\<lparr>clockReads := Suc (clockReads conn)\<rparr>)"

section \<open>Connector.OnMeterValues\<close>

definition getSampleKey :: "SampledValue \<Rightarrow> string" where
  "getSampleKey s = (if Phase s \<noteq> '''' then Measurand s @ ''.'' @ Phase s else Measurand s)"

text \<open>
  The transaction recovery at the head of \<^verbatim>\<open>OnMeterValues\<close>: the request carries a
  transaction id above 0, no transaction is tracked, and the held status is Charging,
  SuspendedEV or SuspendedEVSE.
\<close>

definition recoverable :: "Connector \<Rightarrow> MeterValuesRequest \<Rightarrow> bool" where
  "recoverable conn request =
     ((case MVR_TransactionId request of None \<Rightarrow> False | Some tid \<Rightarrow> tid > 0) \<and>
      txnId conn = 0 \<and>
      (case status conn of
         None \<Rightarrow> False
       | Some st \<Rightarrow> Status st = ChargePointStatusCharging \<or>
                   Status st = ChargePointStatusSuspendedEV \<or>
                   Status st = ChargePointStatusSuspendedEVSE))"

definition recoverTransaction :: "Connector \<Rightarrow> MeterValuesRequest \<Rightarrow> Connector" where
  "recoverTransaction conn request =
     (case MVR_TransactionId request of
        None \<Rightarrow> conn
      | Some tid \<Rightarrow> if recoverable conn request then conn\<lparr>txnId := tid\<rparr> else conn)"

text \<open>
  The body of the inner loop: one sample of an accepted batch. \<open>TrimSpace\<close> is
  \<^verbatim>\<open>strings.TrimSpace\<close> of the Go library, a parameter of the model.
\<close>

definition storeSample :: "(string \<Rightarrow> string) \<Rightarrow> time \<Rightarrow> Connector \<Rightarrow> SampledValue \<Rightarrow> Connector" where
  "storeSample TrimSpace ts conn sample =
     (let sample' = sample\<lparr>Value := TrimSpace (Value sample)\<rparr>;
          key = getSampleKey sample'
      in conn\<lparr>measurements := (measurements conn)(key \<mapsto> sample'), meterUpdated := ts\<rparr>)"

text \<open>
  The body of the outer loop: one batch. A batch without a timestamp takes a reading of
  the clock. The guard is evaluated once, before the samples are stored.
\<close>

definition stampMeterValue :: "Connector \<Rightarrow> MeterValue \<Rightarrow> time \<times> Connector" where
  "stampMeterValue conn meterValue =
     (case MV_Timestamp meterValue of None \<Rightarrow> Now conn | Some t \<Rightarrow> (t, conn))"

definition applyMeterValue :: "(string \<Rightarrow> string) \<Rightarrow> Connector \<Rightarrow> MeterValue \<Rightarrow> Connector" where
  "applyMeterValue TrimSpace conn meterValue =
     (case stampMeterValue conn meterValue of
        (ts, conn1) \<Rightarrow>
          if \<not> ts < meterUpdated conn1
          then foldl (storeSample TrimSpace ts) conn1 (MV_SampledValue meterValue)
          else conn1)"

text \<open>
  \<^verbatim>\<open>sortByAge\<close> is not among the sources: the handler takes it as the parameter
  \<open>sortByAge\<close>, the list of batches in the order in which the loop visits them.
\<close>

definition OnMeterValues ::
  "(MeterValue list \<Rightarrow> MeterValue list) \<Rightarrow> (string \<Rightarrow> string) \<Rightarrow> Connector \<Rightarrow> MeterValuesRequest
     \<Rightarrow> Connector \<times> MeterValuesConfirmation" where
  "OnMeterValues sortByAge TrimSpace conn request =
     (foldl (applyMeterValue TrimSpace) (recoverTransaction conn request)
        (sortByAge (MVR_MeterValue request)),
      MeterValuesConfirmation)"

text \<open>A sequence of calls on one connector.\<close>

definition runMeterValues ::
  "(MeterValue list \<Rightarrow> MeterValue list) \<Rightarrow> (string \<Rightarrow> string) \<Rightarrow> Connector
     \<Rightarrow> MeterValuesRequest list \<Rightarrow> Connector" where
  "runMeterValues sortByAge TrimSpace conn requests =
     foldl (\<lambda>c r. fst (OnMeterValues sortByAge TrimSpace c r)) conn requests"

text \<open>The timestamp under which the loop handles a batch in the state \<open>conn\<close>.\<close>

definition batchTime :: "Connector \<Rightarrow> MeterValue \<Rightarrow> time" where
  "batchTime conn meterValue = fst (stampMeterValue conn meterValue)"

text \<open>
  Modelled from the spec: \<^verbatim>\<open>sortByAge\<close>, which is not among the sources. The spec has
  the batches processed in ascending timestamp order; batches without a timestamp come
  first here. Used wherever a concrete order is needed.
\<close>

definition sortByAge_spec :: "MeterValue list \<Rightarrow> MeterValue list" where
  "sortByAge_spec values = sort_key MV_Timestamp values"

text \<open>\<^verbatim>\<open>strings.TrimSpace\<close> on ASCII white space, for concrete runs.\<close>

definition isSpace :: "char \<Rightarrow> bool" where
  "isSpace c = (c \<in> set [CHR 0x09, CHR 0x0A, CHR 0x0B, CHR 0x0C, CHR 0x0D, CHR 0x20])"

definition TrimSpace_ascii :: "string \<Rightarrow> string" where
  "TrimSpace_ascii s = rev (dropWhile isSpace (rev (dropWhile isSpace s)))"

section \<open>Connector.OnStatusNotification\<close>

text \<open>
  \<^verbatim>\<open>timestampValid\<close>. \<open>Timeout\<close> is the package constant of that name, which is not
  among the sources: a parameter. \<^verbatim>\<open>clock.Since(t)\<close> takes one reading of the clock.
  The method dereferences \<^verbatim>\<open>conn.status\<close> once the expiry test has passed.
\<close>

definition timestampValid :: "int \<Rightarrow> Connector \<Rightarrow> time \<Rightarrow> panic + (bool \<times> Connector)" where
  "timestampValid Timeout conn t =
     (case Now conn of
        (now, conn1) \<Rightarrow>
          if now - t > Timeout then Inr (False, conn1)
          else (case status conn1 of
                  None \<Rightarrow> Inl NilDereference
                | Some held \<Rightarrow>
                    (case Timestamp held of
                       None \<Rightarrow> Inr (True, conn1)
                     | Some t0 \<Rightarrow> Inr (\<not> t < t0, conn1))))"

text \<open>
  Modelled from the spec: \<^verbatim>\<open>RemoteStartTransactionRequest\<close>, which is not among the
  sources. The spec has it issue a remote-start command with the given tag against the
  charger's connection; the command is recorded in \<open>remoteStarts\<close>.
\<close>

definition RemoteStartTransactionRequest :: "Connector \<Rightarrow> string \<Rightarrow> Connector" where
  "RemoteStartTransactionRequest conn tag = conn\<lparr>remoteStarts := remoteStarts conn @ [tag]\<rparr>"

text \<open>
  The tail of the handler. \<^verbatim>\<open>isWaitingForAuth\<close> is not among the sources: a parameter,
  a predicate of the connector.
\<close>

definition resumeAuth :: "(Connector \<Rightarrow> bool) \<Rightarrow> Connector \<Rightarrow> Connector" where
  "resumeAuth isWaitingForAuth conn =
     (if isWaitingForAuth conn
      then (if remoteIdTag conn \<noteq> ''''
            then RemoteStartTransactionRequest conn (remoteIdTag conn)
            else conn)
      else conn)"

definition closeC :: "chan \<Rightarrow> panic + chan" where
  "closeC c = (case c of Open \<Rightarrow> Inr Closed | Closed \<Rightarrow> Inl CloseOfClosedChannel)"

text \<open>
  The handler. The request is a Go pointer and may be nil: \<open>None\<close>. Without a held
  status the pointer is stored as it is and the channel is closed, so a nil request
  leaves the connector without a status; with a held status the request is dereferenced
  for its timestamp.
\<close>

definition OnStatusNotification ::
  "int \<Rightarrow> (Connector \<Rightarrow> bool) \<Rightarrow> Connector \<Rightarrow> StatusNotificationRequest option
     \<Rightarrow> panic + (Connector \<times> StatusNotificationConfirmation)" where
  "OnStatusNotification Timeout isWaitingForAuth conn request =
     (case status conn of
        None \<Rightarrow>
          (case closeC (statusC conn) of
             Inl p \<Rightarrow> Inl p
           | Inr c \<Rightarrow>
               Inr (resumeAuth isWaitingForAuth (conn\<lparr>status := request, statusC := c\<rparr>),
                    StatusNotificationConfirmation))
      | Some held \<Rightarrow>
          (case request of
             None \<Rightarrow> Inl NilDereference
           | Some r \<Rightarrow>
               (case Timestamp r of
                  None \<Rightarrow>
                    Inr (resumeAuth isWaitingForAuth (conn\<lparr>status := request\<rparr>),
                         StatusNotificationConfirmation)
                | Some t \<Rightarrow>
                    (case timestampValid Timeout conn t of
                       Inl p \<Rightarrow> Inl p
                     | Inr (valid, conn1) \<Rightarrow>
                         if valid
                         then Inr (resumeAuth isWaitingForAuth (conn1\<lparr>status := request\<rparr>),
                                   StatusNotificationConfirmation)
                         else Inr (resumeAuth isWaitingForAuth conn1,
                                   StatusNotificationConfirmation)))))"

text \<open>
  A sequence of calls on one connector: the states after each call, or the panic that
  ends the run.
\<close>

fun runStatusNotifications ::
  "int \<Rightarrow> (Connector \<Rightarrow> bool) \<Rightarrow> Connector \<Rightarrow> StatusNotificationRequest option list
     \<Rightarrow> panic + Connector list" where
  "runStatusNotifications Timeout W conn [] = Inr []"
| "runStatusNotifications Timeout W conn (r # rs) =
     (case OnStatusNotification Timeout W conn r of
        Inl p \<Rightarrow> Inl p
      | Inr (conn', _) \<Rightarrow>
          (case runStatusNotifications Timeout W conn' rs of
             Inl p \<Rightarrow> Inl p
           | Inr cs \<Rightarrow> Inr (conn' # cs)))"

text \<open>The timestamp of the held status, if a status is held and it has one.\<close>

definition heldTimestamp :: "Connector \<Rightarrow> time option" where
  "heldTimestamp conn = (case status conn of None \<Rightarrow> None | Some st \<Rightarrow> Timestamp st)"

text \<open>A connector as the constructor leaves it: no status, the channel open.\<close>

definition fresh :: "Connector \<Rightarrow> bool" where
  "fresh conn = (status conn = None \<and> statusC conn = Open)"

section \<open>Transactions\<close>

record StartTransactionRequest =
  ST_ConnectorId :: int
  ST_IdTag :: string
  ST_MeterStart :: int
  ST_ReservationId :: "int option"
  ST_Timestamp :: "time option"

record StopTransactionRequest =
  SP_IdTag :: string
  SP_MeterStop :: int
  SP_Timestamp :: "time option"
  SP_TransactionId :: int
  SP_Reason :: string
  SP_TransactionData :: "MeterValue list"

record IdTagInfo =
  ExpiryDate :: "time option"
  ParentIdTag :: string
  ITI_Status :: string

record StartTransactionConfirmation =
  STC_IdTagInfo :: "IdTagInfo option"
  STC_TransactionId :: int

record StopTransactionConfirmation =
  SPC_IdTagInfo :: "IdTagInfo option"

definition AuthorizationStatusAccepted :: string where
  "AuthorizationStatusAccepted = ''Accepted''"

text \<open>
  The central system. The declarations of \<^verbatim>\<open>CS\<close> and \<^verbatim>\<open>registration\<close> are not among
  the sources; the fields are the ones the sources use: the registry \<^verbatim>\<open>regs\<close>, the
  \<^verbatim>\<open>atomic.Int64\<close> transaction counter, and per registration the status cache and the
  attached charge point (of a type \<open>'cp\<close> left open).
\<close>

record 'cp registration =
  cp :: "'cp option"
  reg_status :: "int \<rightharpoonup> StatusNotificationRequest"

record 'cp CS =
  regs :: "string \<rightharpoonup> 'cp registration"
  cs_txnId :: "64 word"

text \<open>
  \<^verbatim>\<open>Start\<close>, as far as the state of the instance goes: an existing instance is
  returned as it is, a new one has an empty registry and the counter set to the unix
  time (whole seconds) of the start. Instants count nanoseconds from the unix epoch.
\<close>

definition Unix :: "time \<Rightarrow> int" where
  "Unix t = t div 1000000000"

definition Start :: "'cp CS option \<Rightarrow> time \<Rightarrow> 'cp CS" where
  "Start inst now =
     (case inst of
        Some cs \<Rightarrow> cs
      | None \<Rightarrow> \<lparr>regs = Map.empty, cs_txnId = word_of_int (Unix now)\<rparr>)"

text \<open>
  \<^verbatim>\<open>OnStartTransaction\<close>, on the instance behind the package variable: \<^verbatim>\<open>Add(1)\<close> on
  the int64 counter wraps around; \<^verbatim>\<open>int(...)\<close> reads the new value as a signed 64-bit
  integer (the Go \<^verbatim>\<open>int\<close> of a 64-bit platform).
\<close>

definition OnStartTransaction ::
  "'cp CS \<Rightarrow> Connector \<Rightarrow> StartTransactionRequest
     \<Rightarrow> 'cp CS \<times> Connector \<times> StartTransactionConfirmation" where
  "OnStartTransaction inst conn request =
     (let n = cs_txnId inst + 1;
          inst' = inst\<lparr>cs_txnId := n\<rparr>;
          conn' = conn\<lparr>txnId := sint n, idTag := ST_IdTag request\<rparr>;
          res = \<lparr>STC_IdTagInfo =
                   Some \<lparr>ExpiryDate = None, ParentIdTag = '''',
                         ITI_Status = AuthorizationStatusAccepted\<rparr>,
                 STC_TransactionId = txnId conn'\<rparr>
      in (inst', conn', res))"

text \<open>
  The transaction ids returned by a sequence of calls on one instance of the central
  system, each call on any connector.
\<close>

fun startTransactions :: "'cp CS \<Rightarrow> (Connector \<times> StartTransactionRequest) list \<Rightarrow> int list" where
  "startTransactions inst [] = []"
| "startTransactions inst ((conn, request) # calls) =
     (case OnStartTransaction inst conn request of
        (inst', conn', res) \<Rightarrow> STC_TransactionId res # startTransactions inst' calls)"

text \<open>
  \<^verbatim>\<open>Stop\<close> and \<^verbatim>\<open>Restart\<close>, as far as the package variable \<^verbatim>\<open>instance\<close> goes: \<^verbatim>\<open>Stop\<close>
  leaves it nil, \<^verbatim>\<open>Restart\<close> stops and starts, which makes a new instance with a new
  seed.
\<close>

definition Stop :: "'cp CS option \<Rightarrow> 'cp CS option" where
  "Stop inst = (case inst of None \<Rightarrow> None | Some cs \<Rightarrow> None)"

definition Restart :: "'cp CS option \<Rightarrow> time \<Rightarrow> 'cp CS" where
  "Restart inst now = Start (Stop inst) now"

text \<open>
  One process: the package variable \<^verbatim>\<open>instance\<close> under a sequence of calls of
  \<^verbatim>\<open>Start\<close>, \<^verbatim>\<open>Stop\<close>, \<^verbatim>\<open>Restart\<close> (each start with the reading of the wall clock it
  takes) and of \<^verbatim>\<open>OnStartTransaction\<close> on any connector, and the transaction ids
  returned, in order. \<^verbatim>\<open>OnStartTransaction\<close> dereferences \<^verbatim>\<open>instance\<close>: a panic while
  it is nil.
\<close>

datatype event =
  EvStart time
| EvStop
| EvRestart time
| EvStartTransaction Connector StartTransactionRequest

fun runProcess :: "'cp CS option \<Rightarrow> event list \<Rightarrow> panic + int list" where
  "runProcess inst [] = Inr []"
| "runProcess inst (EvStart now # evs) = runProcess (Some (Start inst now)) evs"
| "runProcess inst (EvStop # evs) = runProcess (Stop inst) evs"
| "runProcess inst (EvRestart now # evs) = runProcess (Some (Restart inst now)) evs"
| "runProcess inst (EvStartTransaction conn request # evs) =
     (case inst of
        None \<Rightarrow> Inl NilDereference
      | Some cs \<Rightarrow>
          (case OnStartTransaction cs conn request of
             (cs', conn', res) \<Rightarrow>
               (case runProcess (Some cs') evs of
                  Inl p \<Rightarrow> Inl p
                | Inr ids \<Rightarrow> Inr (STC_TransactionId res # ids))))"

text \<open>\<^verbatim>\<open>strconv.Itoa\<close> of the Go library: the decimal digits, after a minus sign if any.\<close>

fun digits :: "nat \<Rightarrow> string" where
  "digits n =
     (if n < 10 then [''0123456789'' ! n]
      else digits (n div 10) @ [''0123456789'' ! (n mod 10)])"

declare digits.simps [simp del]

definition Itoa :: "int \<Rightarrow> string" where
  "Itoa i = (if i < 0 then CHR ''-'' # digits (nat (- i)) else digits (nat i))"

text \<open>
  Modelled from the spec: \<^verbatim>\<open>getPhaseKey\<close>, which is not among the sources. The spec
  has the keys of the phases L1 to L3 derived from the measurand and the phase qualifier,
  as \<^verbatim>\<open>getSampleKey\<close> does: the measurand, a dot, \<open>L\<close> and the number of the phase.
\<close>

definition getPhaseKey :: "string \<Rightarrow> int \<Rightarrow> string" where
  "getPhaseKey key phase = key @ ''.L'' @ Itoa phase"

definition zeroSample :: "string \<Rightarrow> SampledValue" where
  "zeroSample u =
     \<lparr>Value = ''0'', Context = '''', Format = '''', Measurand = '''', Phase = '''',
      Location = '''', Unit = u\<rparr>"

definition zeroIfPresent ::
  "(string \<rightharpoonup> SampledValue) \<Rightarrow> string \<Rightarrow> string \<Rightarrow> (string \<rightharpoonup> SampledValue)" where
  "zeroIfPresent m key u = (case m key of None \<Rightarrow> m | Some _ \<Rightarrow> m(key \<mapsto> zeroSample u))"

text \<open>One round of the loop over the phases: the two phase powers, then the current.\<close>

definition stopPhase :: "(string \<rightharpoonup> SampledValue) \<Rightarrow> int \<Rightarrow> (string \<rightharpoonup> SampledValue)" where
  "stopPhase m phase =
     (let m1 = foldl (\<lambda>m' suffix.
                  zeroIfPresent m' (getPhaseKey MeasurandPowerActiveImport phase @ suffix)
                    UnitOfMeasureW) m ['''', ''-N'']
      in zeroIfPresent m1 (getPhaseKey MeasurandCurrentImport phase) UnitOfMeasureA)"

definition assumeMeterStopped :: "Connector \<Rightarrow> Connector" where
  "assumeMeterStopped conn =
     (case Now conn of
        (now, conn1) \<Rightarrow>
          let conn2 = conn1\<lparr>meterUpdated := now\<rparr>;
              m0 = zeroIfPresent (measurements conn2) MeasurandPowerActiveImport UnitOfMeasureW
          in conn2\<lparr>measurements := foldl stopPhase m0 [1, 2, 3]\<rparr>)"

definition OnStopTransaction ::
  "Connector \<Rightarrow> StopTransactionRequest \<Rightarrow> Connector \<times> StopTransactionConfirmation" where
  "OnStopTransaction conn request =
     (let conn1 = conn\<lparr>txnId := 0, idTag := ''''\<rparr>;
          res = \<lparr>SPC_IdTagInfo =
                   Some \<lparr>ExpiryDate = None, ParentIdTag = '''',
                         ITI_Status = AuthorizationStatusAccepted\<rparr>\<rparr>
      in (assumeMeterStopped conn1, res))"

text \<open>
  The measurement keys that \<^verbatim>\<open>assumeMeterStopped\<close> visits, each with the unit it
  writes.
\<close>

definition stoppedKeys :: "(string \<times> string) list" where
  "stoppedKeys =
     (MeasurandPowerActiveImport, UnitOfMeasureW) #
     concat (map (\<lambda>phase.
       [(getPhaseKey MeasurandPowerActiveImport phase, UnitOfMeasureW),
        (getPhaseKey MeasurandPowerActiveImport phase @ ''-N'', UnitOfMeasureW),
        (getPhaseKey MeasurandCurrentImport phase, UnitOfMeasureA)]) [1, 2, 3])"

section \<open>The dispatcher: StatusNotification\<close>

datatype lookupError = ErrNotFound

text \<open>
  The first half of \<^verbatim>\<open>CS.OnStatusNotification\<close>: with a registration for the id and a
  non-nil request, the request goes into the status cache of the registration.
\<close>

definition cacheStatus ::
  "'cp CS \<Rightarrow> string \<Rightarrow> StatusNotificationRequest option \<Rightarrow> 'cp CS" where
  "cacheStatus cs ident request =
     (case regs cs ident of
        None \<Rightarrow> cs
      | Some reg \<Rightarrow>
          (case request of
             None \<Rightarrow> cs
           | Some r \<Rightarrow>
               cs\<lparr>regs := (regs cs)(ident \<mapsto>
                     reg\<lparr>reg_status := (reg_status reg)(ConnectorId r \<mapsto> r)\<rparr>)\<rparr>))"

text \<open>
  The handler. \<^verbatim>\<open>ChargepointByID\<close> and the charge point's own handler are not among the
  sources: parameters. The charge point's handler works on the state it is given and
  returns the new state with its answer, a confirmation or an error of a type \<open>'e\<close> left
  open.
\<close>

definition CS_OnStatusNotification ::
  "('cp CS \<Rightarrow> string \<Rightarrow> lookupError + 'cp) \<Rightarrow>
   ('cp \<Rightarrow> 'cp CS \<Rightarrow> StatusNotificationRequest option
      \<Rightarrow> 'cp CS \<times> ('e + StatusNotificationConfirmation)) \<Rightarrow>
   'cp CS \<Rightarrow> string \<Rightarrow> StatusNotificationRequest option
     \<Rightarrow> 'cp CS \<times> ('e + StatusNotificationConfirmation)" where
  "CS_OnStatusNotification ChargepointByID cpOnStatusNotification cs ident request =
     (let cs1 = cacheStatus cs ident request
      in case ChargepointByID cs1 ident of
           Inr chargepoint \<Rightarrow> cpOnStatusNotification chargepoint cs1 request
         | Inl err \<Rightarrow> (cs1, Inr StatusNotificationConfirmation))"

text \<open>
  Modelled from the spec: \<^verbatim>\<open>ChargepointByID\<close>, which is not among the sources: the
  charge point attached to the registration of the id, or not found. Used wherever a
  concrete lookup is needed.
\<close>

definition ChargepointByID_spec :: "'cp CS \<Rightarrow> string \<Rightarrow> lookupError + 'cp" where
  "ChargepointByID_spec cs ident =
     (case regs cs ident of
        None \<Rightarrow> Inl ErrNotFound
      | Some reg \<Rightarrow> (case cp reg of None \<Rightarrow> Inl ErrNotFound | Some c \<Rightarrow> Inr c))"

section \<open>The dispatcher: DataTransfer\<close>

text \<open>
  A decoded JSON value, as \<^verbatim>\<open>encoding/json\<close> stores it into a Go \<^verbatim>\<open>any\<close>: nil, bool,
  float64, string, slice, map. A float64 is a real number here: the equality with 0 and
  the comparisons with the thresholds are exact on floats too, the division by 1000 is
  exact here and rounded to the nearest float in Go.
\<close>

datatype json =
  JNull
| JBool bool
| JNumber real
| JString string
| JArray "json list"
| JObject "(string \<times> json) list"

datatype jsonError = SyntaxError | UnmarshalTypeError | NoValues

record DataTransferRequest =
  DT_VendorId :: string
  DT_MessageId :: string
  DT_Data :: json

record DataTransferConfirmation =
  DTC_Status :: string
  DTC_Data :: json

definition DataTransferStatusAccepted :: string where
  "DataTransferStatusAccepted = ''Accepted''"

text \<open>
  \<^verbatim>\<open>json.Unmarshal\<close> of the Go library. Reading a text as a JSON value is the
  parameter \<open>parse\<close> (\<open>None\<close>: the text is not one JSON value); what the library then
  does with the value depends on the type of the target. Into a \<^verbatim>\<open>map[string]any\<close>:
  an object is stored with the last of equal keys winning, null leaves the nil map, any
  other value is a type error. Into a \<^verbatim>\<open>float64\<close>: a number is stored, null leaves the
  0, any other value, a string too, is a type error.
\<close>

definition Unmarshal_object ::
  "(string \<Rightarrow> json option) \<Rightarrow> string \<Rightarrow> jsonError + (string \<rightharpoonup> json)" where
  "Unmarshal_object parse text =
     (case parse text of
        None \<Rightarrow> Inl SyntaxError
      | Some (JObject kvs) \<Rightarrow> Inr (map_of (rev kvs))
      | Some JNull \<Rightarrow> Inr Map.empty
      | Some _ \<Rightarrow> Inl UnmarshalTypeError)"

definition Unmarshal_float64 :: "(string \<Rightarrow> json option) \<Rightarrow> string \<Rightarrow> jsonError + real" where
  "Unmarshal_float64 parse text =
     (case parse text of
        None \<Rightarrow> Inl SyntaxError
      | Some (JNumber x) \<Rightarrow> Inr x
      | Some JNull \<Rightarrow> Inr 0
      | Some _ \<Rightarrow> Inl UnmarshalTypeError)"

text \<open>
  The type switch of \<^verbatim>\<open>meterParseMasterplug\<close>, which the source writes out once for
  \<^verbatim>\<open>current\<close> and once for \<^verbatim>\<open>voltage\<close>: a number is taken, a string is put between
  double quotes and unmarshalled into a float64, anything else leaves the 0.
\<close>

definition fieldValue :: "(string \<Rightarrow> json option) \<Rightarrow> (string \<rightharpoonup> json) \<Rightarrow> string \<Rightarrow> real" where
  \<open>fieldValue parse obj key =
     (case obj key of
        None \<Rightarrow> 0
      | Some (JNumber t) \<Rightarrow> t
      | Some (JString t) \<Rightarrow>
          (case Unmarshal_float64 parse (''"'' @ t @ ''"'') of
             Inr tmp \<Rightarrow> tmp
           | Inl err \<Rightarrow> 0)
      | Some _ \<Rightarrow> 0)\<close>

definition meterParseMasterplug ::
  "(string \<Rightarrow> json option) \<Rightarrow> string \<Rightarrow> jsonError + (real \<times> real)" where
  "meterParseMasterplug parse data =
     (case Unmarshal_object parse data of
        Inl err \<Rightarrow> Inl err
      | Inr obj \<Rightarrow>
          (let curVal = fieldValue parse obj ''current'';
               voltVal = fieldValue parse obj ''voltage''
           in if curVal = 0 \<and> voltVal = 0 then Inl NoValues
              else Inr (if curVal > 100 then curVal / 1000 else curVal,
                        if voltVal > 1000 then voltVal / 1000 else voltVal)))"

text \<open>
  The meter package: the registered meters by id, and the calls of \<^verbatim>\<open>Update\<close> made so
  far, oldest first.
\<close>

record OCPPDataTransferMeter =
  meter_id :: string
  current :: real
  voltage :: real

record meterPkg =
  instances :: "string \<rightharpoonup> OCPPDataTransferMeter"
  updates :: "(string \<times> real \<times> real) list"

definition setMeter ::
  "(string \<rightharpoonup> OCPPDataTransferMeter) \<Rightarrow> string \<Rightarrow> real \<Rightarrow> real
     \<Rightarrow> (string \<rightharpoonup> OCPPDataTransferMeter)" where
  "setMeter ms key c v =
     (case ms key of None \<Rightarrow> ms | Some m \<Rightarrow> ms(key \<mapsto> m\<lparr>current := c, voltage := v\<rparr>))"

definition Update :: "meterPkg \<Rightarrow> string \<Rightarrow> real \<Rightarrow> real \<Rightarrow> meterPkg" where
  "Update pkg chargePoint c v =
     pkg\<lparr>instances := setMeter (setMeter (instances pkg) chargePoint c v) '''' c v,
         updates := updates pkg @ [(chargePoint, c, v)]\<rparr>"

definition CS_OnDataTransfer ::
  "(string \<Rightarrow> json option) \<Rightarrow> meterPkg \<Rightarrow> string \<Rightarrow> DataTransferRequest option
     \<Rightarrow> meterPkg \<times> DataTransferConfirmation" where
  "CS_OnDataTransfer parse pkg ident request =
     (let res = \<lparr>DTC_Status = DataTransferStatusAccepted, DTC_Data = JNull\<rparr>
      in case request of
           None \<Rightarrow> (pkg, res)
         | Some r \<Rightarrow>
             if DT_VendorId r = ''MasterPlug'' \<and> DT_MessageId r = ''GetCTClampValue''
             then (let s = (case DT_Data r of JString s \<Rightarrow> s | _ \<Rightarrow> '''')
                   in case meterParseMasterplug parse s of
                        Inr (cur, volt) \<Rightarrow> (Update pkg ident cur volt, res)
                      | Inl err \<Rightarrow> (pkg, res))
             else (pkg, res))"

text \<open>
  The payload of the example, its two quoted field values, and a reader of JSON texts
  that knows these texts (and the payload with plain numbers) and no others, for
  concrete runs.
\<close>

definition payloadStrings :: string where
  \<open>payloadStrings = ''{"current":"4110","voltage":"249700"}''\<close>

definition payloadNumbers :: string where
  \<open>payloadNumbers = ''{"current":4110,"voltage":249700}''\<close>

definition parseExample :: "string \<Rightarrow> json option" where
  \<open>parseExample text =
     (if text = payloadStrings
      then Some (JObject [(''current'', JString ''4110''), (''voltage'', JString ''249700'')])
      else if text = payloadNumbers
      then Some (JObject [(''current'', JNumber 4110), (''voltage'', JNumber 249700)])
      else if text = ''"4110"'' then Some (JString ''4110'')
      else if text = ''"249700"'' then Some (JString ''249700'')
      else if text = ''{}'' then Some (JObject [])
      else None)\<close>

definition masterPlugRequest :: "string \<Rightarrow> DataTransferRequest" where
  "masterPlugRequest payload =
     \<lparr>DT_VendorId = ''MasterPlug'', DT_MessageId = ''GetCTClampValue'',
      DT_Data = JString payload\<rparr>"

section \<open>Concrete values\<close>

text \<open>
  A clock, a timeout of thirty seconds, an instance of \<^verbatim>\<open>isWaitingForAuth\<close> (a status is
  held and no transaction is tracked), connectors, requests and a charge point handler
  for concrete runs of the handlers.
\<close>

definition exClock :: "nat \<Rightarrow> time" where
  "exClock n = 100 + int n"

definition exTimeout :: int where
  "exTimeout = 30000000000"

definition exWaiting :: "Connector \<Rightarrow> bool" where
  "exWaiting conn = (status conn \<noteq> None \<and> txnId conn = 0)"

definition exStatus :: "string \<Rightarrow> time option \<Rightarrow> StatusNotificationRequest" where
  "exStatus s t =
     \<lparr>ConnectorId = 1, ErrorCode = ''NoError'', Info = '''', Status = s, Timestamp = t,
      VendorId = '''', VendorErrorCode = ''''\<rparr>"

definition exSample :: "string \<Rightarrow> string \<Rightarrow> string \<Rightarrow> string \<Rightarrow> SampledValue" where
  "exSample m p v u =
     \<lparr>Value = v, Context = '''', Format = '''', Measurand = m, Phase = p, Location = '''',
      Unit = u\<rparr>"

definition exConnector :: Connector where
  "exConnector =
     \<lparr>clock = exClock, clockReads = 0, conn_id = 1, status = None, statusC = Open,
      measurements = Map.empty, meterUpdated = 0, txnId = 0, idTag = '''',
      remoteIdTag = ''tag'', remoteStarts = []\<rparr>"

definition exMetered :: Connector where
  "exMetered =
     exConnector\<lparr>status := Some (exStatus ''Charging'' (Some 100)), statusC := Closed,
       measurements :=
         [''Power.Active.Import'' \<mapsto> exSample ''Power.Active.Import'' '''' ''5000'' ''W'',
          ''Voltage.L1'' \<mapsto> exSample ''Voltage'' ''L1'' ''230'' ''V''],
       meterUpdated := 100\<rparr>"

definition exOld :: MeterValue where
  "exOld =
     \<lparr>MV_Timestamp = Some 50,
      MV_SampledValue = [exSample ''Power.Active.Import'' '''' ''1'' ''W'']\<rparr>"

definition exNew :: MeterValue where
  "exNew =
     \<lparr>MV_Timestamp = Some 150,
      MV_SampledValue = [exSample ''Power.Active.Import'' '''' '' 7000 '' ''W'']\<rparr>"

definition exMeterRequest :: "int option \<Rightarrow> MeterValue list \<Rightarrow> MeterValuesRequest" where
  "exMeterRequest tid mvs =
     \<lparr>MVR_ConnectorId = 1, MVR_TransactionId = tid, MVR_MeterValue = mvs\<rparr>"

definition exStart :: StartTransactionRequest where
  "exStart =
     \<lparr>ST_ConnectorId = 1, ST_IdTag = ''tag'', ST_MeterStart = 0, ST_ReservationId = None,
      ST_Timestamp = None\<rparr>"

definition exStop :: StopTransactionRequest where
  "exStop =
     \<lparr>SP_IdTag = ''tag'', SP_MeterStop = 0, SP_Timestamp = None, SP_TransactionId = 1,
      SP_Reason = '''', SP_TransactionData = []\<rparr>"

definition exCpHandler ::
  "unit \<Rightarrow> unit CS \<Rightarrow> StatusNotificationRequest option
     \<Rightarrow> unit CS \<times> (unit + StatusNotificationConfirmation)" where
  "exCpHandler chargepoint cs request = (cs, Inr StatusNotificationConfirmation)"


definition exEmptyCS :: "unit CS" where
  "exEmptyCS = \<lparr>regs = Map.empty, cs_txnId = 0\<rparr>"

definition exCS :: "unit CS" where
  "exCS = \<lparr>regs = [''charger-1'' \<mapsto> \<lparr>cp = None, reg_status = Map.empty\<rparr>], cs_txnId = 0\<rparr>"

definition exPkg :: meterPkg where
  "exPkg =
     \<lparr>instances = [''charger-1'' \<mapsto> \<lparr>meter_id = ''charger-1'', current = 0, voltage = 0\<rparr>],
      updates = []\<rparr>"

text \<open>
  The writes of \<^verbatim>\<open>assumeMeterStopped\<close> as one pass over a list of keys with their
  units.
\<close>

definition zeroAll ::
  "(string \<rightharpoonup> SampledValue) \<Rightarrow> (string \<times> string) list \<Rightarrow> (string \<rightharpoonup> SampledValue)" where
  "zeroAll m kus = foldl (\<lambda>m' (k, u). zeroIfPresent m' k u) m kus"

section \<open>Measurements only move forward\<close>

lemmas ex_defs = exClock_def exTimeout_def exWaiting_def exStatus_def exSample_def
  exConnector_def exMetered_def exOld_def exNew_def exMeterRequest_def exStart_def exStop_def
  exCpHandler_def exCS_def exPkg_def

lemma storeSample_meterUpdated: "meterUpdated (storeSample T ts c s) = ts"
  by (simp add: storeSample_def Let_def)

lemma storeSample_txnId: "txnId (storeSample T ts c s) = txnId c"
  by (simp add: storeSample_def Let_def)

lemma foldl_storeSample_meterUpdated:
  "meterUpdated (foldl (storeSample T ts) c ss) = (if ss = [] then meterUpdated c else ts)"
  by (induction ss arbitrary: c) (simp_all add: storeSample_meterUpdated)

lemma foldl_storeSample_txnId: "txnId (foldl (storeSample T ts) c ss) = txnId c"
  by (induction ss arbitrary: c) (simp_all add: storeSample_txnId)

lemma stampMeterValue_fields:
  "meterUpdated (snd (stampMeterValue c mv)) = meterUpdated c"
  "measurements (snd (stampMeterValue c mv)) = measurements c"
  "txnId (snd (stampMeterValue c mv)) = txnId c"
  by (simp_all add: stampMeterValue_def Now_def split: option.splits)

lemma applyMeterValue_old:
  assumes "batchTime c mv < meterUpdated c"
  shows "measurements (applyMeterValue T c mv) = measurements c"
    and "meterUpdated (applyMeterValue T c mv) = meterUpdated c"
  using assms stampMeterValue_fields [of c mv]
  by (auto simp: applyMeterValue_def batchTime_def split: prod.splits)

lemma applyMeterValue_meterUpdated:
  "meterUpdated (applyMeterValue T c mv) =
     (if batchTime c mv < meterUpdated c \<or> MV_SampledValue mv = [] then meterUpdated c
      else batchTime c mv)"
  using stampMeterValue_fields [of c mv]
  by (auto simp: applyMeterValue_def batchTime_def foldl_storeSample_meterUpdated
      split: prod.splits)

lemma applyMeterValue_mono: "meterUpdated c \<le> meterUpdated (applyMeterValue T c mv)"
  by (simp add: applyMeterValue_meterUpdated)

lemma applyMeterValue_txnId: "txnId (applyMeterValue T c mv) = txnId c"
  using stampMeterValue_fields [of c mv]
  by (auto simp: applyMeterValue_def foldl_storeSample_txnId split: prod.splits)

lemma foldl_applyMeterValue_mono:
  "meterUpdated c \<le> meterUpdated (foldl (applyMeterValue T) c mvs)"
proof (induction mvs arbitrary: c)
  case Nil
  show ?case by simp
next
  case (Cons mv mvs)
  have "meterUpdated c \<le> meterUpdated (applyMeterValue T c mv)"
    by (rule applyMeterValue_mono)
  also have "\<dots> \<le> meterUpdated (foldl (applyMeterValue T) (applyMeterValue T c mv) mvs)"
    by (rule Cons.IH)
  finally show ?case by simp
qed

lemma foldl_applyMeterValue_txnId: "txnId (foldl (applyMeterValue T) c mvs) = txnId c"
  by (induction mvs arbitrary: c) (simp_all add: applyMeterValue_txnId)

lemma recoverTransaction_fields:
  "meterUpdated (recoverTransaction c r) = meterUpdated c"
  "measurements (recoverTransaction c r) = measurements c"
  by (simp_all add: recoverTransaction_def split: option.splits)

lemma OnMeterValues_mono: "meterUpdated c \<le> meterUpdated (fst (OnMeterValues S T c r))"
  using foldl_applyMeterValue_mono [of "recoverTransaction c r" T "S (MVR_MeterValue r)"]
  by (simp add: OnMeterValues_def recoverTransaction_fields)

lemma runMeterValues_mono: "meterUpdated c \<le> meterUpdated (runMeterValues S T c rs)"
proof (induction rs arbitrary: c)
  case Nil
  show ?case by (simp add: runMeterValues_def)
next
  case (Cons r rs)
  have "meterUpdated c \<le> meterUpdated (fst (OnMeterValues S T c r))"
    by (rule OnMeterValues_mono)
  also have "\<dots> \<le> meterUpdated (runMeterValues S T (fst (OnMeterValues S T c r)) rs)"
    by (rule Cons.IH)
  finally show ?case by (simp add: runMeterValues_def)
qed

lemma foldl_applyMeterValue_old:
  assumes "\<forall>mv \<in> set mvs. \<exists>t. MV_Timestamp mv = Some t \<and> t < meterUpdated c"
  shows "measurements (foldl (applyMeterValue T) c mvs) = measurements c \<and>
         meterUpdated (foldl (applyMeterValue T) c mvs) = meterUpdated c"
  using assms
proof (induction mvs arbitrary: c)
  case Nil
  show ?case by simp
next
  case (Cons mv mvs)
  from Cons.prems obtain t where t: "MV_Timestamp mv = Some t" "t < meterUpdated c"
    by auto
  then have old: "batchTime c mv < meterUpdated c"
    by (simp add: batchTime_def stampMeterValue_def)
  have same: "measurements (applyMeterValue T c mv) = measurements c"
    "meterUpdated (applyMeterValue T c mv) = meterUpdated c"
    using applyMeterValue_old [OF old] by simp_all
  have "\<forall>mv' \<in> set mvs. \<exists>t. MV_Timestamp mv' = Some t \<and> t < meterUpdated (applyMeterValue T c mv)"
    using Cons.prems same by simp
  from Cons.IH [OF this] same show ?case by simp
qed

lemma applyMeterValue_changed:
  assumes "measurements (applyMeterValue T c mv) k \<noteq> measurements c k"
  shows "meterUpdated c \<le> batchTime c mv \<and> meterUpdated (applyMeterValue T c mv) = batchTime c mv"
proof -
  have notold: "\<not> batchTime c mv < meterUpdated c"
    using assms applyMeterValue_old(1) [of c mv T] by auto
  have "MV_SampledValue mv \<noteq> []"
  proof
    assume "MV_SampledValue mv = []"
    then have "measurements (applyMeterValue T c mv) = measurements c"
      using stampMeterValue_fields [of c mv]
      by (auto simp: applyMeterValue_def split: prod.splits)
    with assms show False by simp
  qed
  with notold show ?thesis by (simp add: applyMeterValue_meterUpdated)
qed

text \<open>
  C1. Over any sequence of \<^verbatim>\<open>OnMeterValues\<close> calls on a connector \<open>meterUpdated\<close> never
  decreases, in whatever order \<open>sortByAge\<close> hands out the batches. A batch \<open>old\<close> whose
  timestamp is before \<open>meterUpdated\<close> leaves every measurement and \<open>meterUpdated\<close> as
  they are. A batch \<open>new\<close> that changes the sample stored under some key has a timestamp
  at or after \<open>meterUpdated\<close>, which becomes the new \<open>meterUpdated\<close>. A request all of
  whose batches are older than \<open>meterUpdated\<close> changes neither.
\<close>

theorem OnMeterValues_forward_only:
  "meterUpdated conn \<le> meterUpdated (runMeterValues sortByAge TrimSpace conn requests) \<and>
   (batchTime conn old < meterUpdated conn \<longrightarrow>
      measurements (applyMeterValue TrimSpace conn old) = measurements conn \<and>
      meterUpdated (applyMeterValue TrimSpace conn old) = meterUpdated conn) \<and>
   (measurements (applyMeterValue TrimSpace conn new) k \<noteq> measurements conn k \<longrightarrow>
      meterUpdated conn \<le> batchTime conn new \<and>
      meterUpdated (applyMeterValue TrimSpace conn new) = batchTime conn new) \<and>
   ((\<forall>b \<in> set (sortByAge (MVR_MeterValue request)).
        \<exists>t. MV_Timestamp b = Some t \<and> t < meterUpdated conn) \<longrightarrow>
      measurements (fst (OnMeterValues sortByAge TrimSpace conn request)) = measurements conn \<and>
      meterUpdated (fst (OnMeterValues sortByAge TrimSpace conn request)) = meterUpdated conn)"
proof (intro conjI impI)
  show "meterUpdated conn \<le> meterUpdated (runMeterValues sortByAge TrimSpace conn requests)"
    by (rule runMeterValues_mono)
next
  assume "batchTime conn old < meterUpdated conn"
  then show "measurements (applyMeterValue TrimSpace conn old) = measurements conn"
    and "meterUpdated (applyMeterValue TrimSpace conn old) = meterUpdated conn"
    by (rule applyMeterValue_old)+
next
  assume ch: "measurements (applyMeterValue TrimSpace conn new) k \<noteq> measurements conn k"
  from applyMeterValue_changed [OF ch]
  show "meterUpdated conn \<le> batchTime conn new"
    and "meterUpdated (applyMeterValue TrimSpace conn new) = batchTime conn new"
    by simp_all
next
  assume old: "\<forall>b \<in> set (sortByAge (MVR_MeterValue request)).
        \<exists>t. MV_Timestamp b = Some t \<and> t < meterUpdated conn"
  then have old': "\<forall>b \<in> set (sortByAge (MVR_MeterValue request)).
        \<exists>t. MV_Timestamp b = Some t \<and> t < meterUpdated (recoverTransaction conn request)"
    by (simp add: recoverTransaction_fields)
  from foldl_applyMeterValue_old [OF old', of TrimSpace]
  show "measurements (fst (OnMeterValues sortByAge TrimSpace conn request)) = measurements conn"
    and "meterUpdated (fst (OnMeterValues sortByAge TrimSpace conn request)) = meterUpdated conn"
    by (simp_all add: OnMeterValues_def recoverTransaction_fields)
qed

theorem OnMeterValues_forward_only_witness:
  "batchTime exMetered exOld < meterUpdated exMetered \<and>
   measurements (applyMeterValue TrimSpace_ascii exMetered exOld) = measurements exMetered \<and>
   measurements (applyMeterValue TrimSpace_ascii exMetered exNew) ''Power.Active.Import'' \<noteq>
     measurements exMetered ''Power.Active.Import'' \<and>
   meterUpdated (applyMeterValue TrimSpace_ascii exMetered exNew) = batchTime exMetered exNew \<and>
   meterUpdated (fst (OnMeterValues sortByAge_spec TrimSpace_ascii exMetered
      (exMeterRequest None [exOld]))) = meterUpdated exMetered \<and>
   meterUpdated exMetered \<le> meterUpdated (runMeterValues sortByAge_spec TrimSpace_ascii exMetered
      [exMeterRequest None [exNew, exOld]])"
proof -
  have h2: "batchTime exMetered exOld < meterUpdated exMetered"
    by (simp add: batchTime_def stampMeterValue_def ex_defs)
  have h3: "measurements (applyMeterValue TrimSpace_ascii exMetered exNew) ''Power.Active.Import'' \<noteq>
     measurements exMetered ''Power.Active.Import''"
    by (simp add: applyMeterValue_def stampMeterValue_def storeSample_def getSampleKey_def
        TrimSpace_ascii_def isSpace_def Let_def ex_defs)
  have h4: "\<forall>b \<in> set (sortByAge_spec (MVR_MeterValue (exMeterRequest None [exOld]))).
        \<exists>t. MV_Timestamp b = Some t \<and> t < meterUpdated exMetered"
    by (simp add: sortByAge_spec_def ex_defs)
  from OnMeterValues_forward_only [where conn = exMetered and sortByAge = sortByAge_spec
      and TrimSpace = TrimSpace_ascii and requests = "[exMeterRequest None [exNew, exOld]]"
      and old = exOld and new = exNew and k = "''Power.Active.Import''"
      and request = "exMeterRequest None [exOld]"] h2 h3 h4
  show ?thesis by blast
qed

text \<open>
  C6. After \<^verbatim>\<open>OnMeterValues\<close> the connector's \<open>txnId\<close> is the transaction id of the
  request when that id is non-nil and above 0, the connector tracked no transaction
  (\<open>txnId\<close> 0) and the held status is Charging, SuspendedEV or SuspendedEVSE; in every
  other case \<open>txnId\<close> is what it was. The handler has no access to the transaction
  counter of the central system, so no new id is issued.
\<close>

theorem OnMeterValues_recovers_transaction:
  "txnId (fst (OnMeterValues sortByAge TrimSpace conn request)) =
     (case MVR_TransactionId request of
        None \<Rightarrow> txnId conn
      | Some tid \<Rightarrow>
          if tid > 0 \<and> txnId conn = 0 \<and>
             (\<exists>st. status conn = Some st \<and>
                (Status st = ''Charging'' \<or> Status st = ''SuspendedEV'' \<or>
                 Status st = ''SuspendedEVSE''))
          then tid else txnId conn)"
  by (auto simp: OnMeterValues_def foldl_applyMeterValue_txnId recoverTransaction_def
      recoverable_def ChargePointStatusCharging_def ChargePointStatusSuspendedEV_def
      ChargePointStatusSuspendedEVSE_def split: option.splits)

theorem OnMeterValues_recovers_transaction_witness:
  "txnId (fst (OnMeterValues sortByAge_spec TrimSpace_ascii exMetered
      (exMeterRequest (Some 42) [exNew]))) = 42 \<and>
   txnId (fst (OnMeterValues sortByAge_spec TrimSpace_ascii exConnector
      (exMeterRequest (Some 42) [exNew]))) = 0"
  using OnMeterValues_recovers_transaction [where sortByAge = sortByAge_spec
      and TrimSpace = TrimSpace_ascii and conn = exMetered
      and request = "exMeterRequest (Some 42) [exNew]"]
    OnMeterValues_recovers_transaction [where sortByAge = sortByAge_spec
      and TrimSpace = TrimSpace_ascii and conn = exConnector
      and request = "exMeterRequest (Some 42) [exNew]"]
  by (simp add: ex_defs)

section \<open>Status notifications\<close>

lemma resumeAuth_fields:
  "status (resumeAuth W c) = status c"
  "statusC (resumeAuth W c) = statusC c"
  by (simp_all add: resumeAuth_def RemoteStartTransactionRequest_def)

lemma timestampValid_held:
  assumes "status c = Some held"
  shows "\<exists>v c1. timestampValid Timeout c t = Inr (v, c1) \<and> status c1 = status c \<and>
            statusC c1 = statusC c \<and>
            (v \<longrightarrow> (case Timestamp held of None \<Rightarrow> True | Some t0 \<Rightarrow> t0 \<le> t))"
  using assms by (auto simp: timestampValid_def Now_def split: option.splits)

lemma OnStatusNotification_first:
  assumes "fresh c"
  shows "\<exists>c'. OnStatusNotification Timeout W c request =
             Inr (c', StatusNotificationConfirmation) \<and>
           status c' = request \<and> statusC c' = Closed"
  using assms by (simp add: fresh_def OnStatusNotification_def closeC_def resumeAuth_fields)

lemma OnStatusNotification_later:
  assumes "status c = Some held"
  shows "\<exists>c'. OnStatusNotification Timeout W c (Some r) =
             Inr (c', StatusNotificationConfirmation) \<and>
           statusC c' = statusC c \<and> status c' \<noteq> None \<and>
           (Timestamp r \<noteq> None \<longrightarrow> heldTimestamp c \<le> heldTimestamp c')"
proof (cases "Timestamp r")
  case None
  with assms show ?thesis
    by (simp add: OnStatusNotification_def resumeAuth_fields)
next
  case (Some t)
  from timestampValid_held [OF assms, of Timeout t] obtain v c1 where
    tv: "timestampValid Timeout c t = Inr (v, c1)" "status c1 = status c" "statusC c1 = statusC c"
      "v \<longrightarrow> (case Timestamp held of None \<Rightarrow> True | Some t0 \<Rightarrow> t0 \<le> t)"
    by blast
  show ?thesis
  proof (cases v)
    case True
    with tv(4) have "heldTimestamp c \<le> Some t"
      using assms by (simp add: heldTimestamp_def split: option.splits)
    with assms Some tv True show ?thesis
      by (simp add: OnStatusNotification_def resumeAuth_fields heldTimestamp_def)
  next
    case False
    with assms Some tv show ?thesis
      by (simp add: OnStatusNotification_def resumeAuth_fields heldTimestamp_def)
  qed
qed


lemma run_later_sorted:
  assumes "status c \<noteq> None" and "\<forall>r \<in> set rs. Timestamp r \<noteq> None"
  shows "\<exists>cs. runStatusNotifications Timeout W c (map Some rs) = Inr cs \<and>
           (\<forall>c' \<in> set cs. heldTimestamp c \<le> heldTimestamp c') \<and>
           sorted (map heldTimestamp cs)"
  using assms
proof (induction rs arbitrary: c)
  case Nil
  show ?case by simp
next
  case (Cons r rs)
  from Cons.prems obtain held where held: "status c = Some held" by auto
  from Cons.prems have ts: "Timestamp r \<noteq> None" by simp
  from OnStatusNotification_later [OF held, of Timeout W r] ts obtain c' where
    c': "OnStatusNotification Timeout W c (Some r) = Inr (c', StatusNotificationConfirmation)"
      "status c' \<noteq> None" "heldTimestamp c \<le> heldTimestamp c'"
    by blast
  from Cons.prems have "\<forall>r \<in> set rs. Timestamp r \<noteq> None" by simp
  from Cons.IH [OF c'(2) this] obtain cs where
    cs: "runStatusNotifications Timeout W c' (map Some rs) = Inr cs"
      "\<forall>d \<in> set cs. heldTimestamp c' \<le> heldTimestamp d"
      "sorted (map heldTimestamp cs)"
    by blast
  from cs(2) c'(3) have "\<forall>d \<in> set cs. heldTimestamp c \<le> heldTimestamp d"
    by (meson order_trans)
  with c' cs show ?case by simp
qed

text \<open>
  C2, as the code has it. A request without a timestamp is always accepted, and once the
  held status has no timestamp any timestamp that has not expired is accepted: after the
  timestamps 100, none, 90 the connector holds 90, having held 100 (the counterexample).
  What holds: on a connector without a status the first call stores its request whatever
  the timestamp, and when every request of the sequence carries a timestamp, every held
  status has one and the held timestamps never decrease from one call to the next. Call
  by call: a request with a timestamp never takes the held timestamp backwards.
\<close>

theorem OnStatusNotification_timestamps_ascend:
  "(fresh conn \<and> (\<forall>r \<in> set (request # requests). Timestamp r \<noteq> None) \<longrightarrow>
      (\<exists>c cs. runStatusNotifications Timeout W conn (map Some (request # requests)) =
           Inr (c # cs) \<and>
         status c = Some request \<and>
         (\<forall>d \<in> set (c # cs). heldTimestamp d \<noteq> None) \<and>
         sorted (map heldTimestamp (c # cs)))) \<and>
   (status known \<noteq> None \<and> Timestamp stamped \<noteq> None \<longrightarrow>
      (\<exists>c. OnStatusNotification Timeout W known (Some stamped) =
           Inr (c, StatusNotificationConfirmation) \<and>
         heldTimestamp known \<le> heldTimestamp c))"
proof (intro conjI impI)
  assume a: "fresh conn \<and> (\<forall>r \<in> set (request # requests). Timestamp r \<noteq> None)"
  from OnStatusNotification_first [of conn Timeout W "Some request"] a obtain c where
    c: "OnStatusNotification Timeout W conn (Some request) =
          Inr (c, StatusNotificationConfirmation)"
      "status c = Some request"
    by blast
  then have st: "status c \<noteq> None" by simp
  from a have rs: "\<forall>r \<in> set requests. Timestamp r \<noteq> None" by simp
  from run_later_sorted [OF st rs, of Timeout W] obtain cs where
    cs: "runStatusNotifications Timeout W c (map Some requests) = Inr cs"
      "\<forall>d \<in> set cs. heldTimestamp c \<le> heldTimestamp d"
      "sorted (map heldTimestamp cs)"
    by blast
  from a c(2) have hc: "heldTimestamp c \<noteq> None"
    by (simp add: heldTimestamp_def)
  have "\<forall>d \<in> set cs. heldTimestamp d \<noteq> None"
  proof
    fix d assume "d \<in> set cs"
    with cs(2) have "heldTimestamp c \<le> heldTimestamp d" by simp
    with hc show "heldTimestamp d \<noteq> None"
      by (cases "heldTimestamp c"; cases "heldTimestamp d") simp_all
  qed
  with c cs hc
  show "\<exists>c cs. runStatusNotifications Timeout W conn (map Some (request # requests)) =
           Inr (c # cs) \<and>
         status c = Some request \<and>
         (\<forall>d \<in> set (c # cs). heldTimestamp d \<noteq> None) \<and>
         sorted (map heldTimestamp (c # cs))"
    by simp
next
  assume a: "status known \<noteq> None \<and> Timestamp stamped \<noteq> None"
  then obtain held where held: "status known = Some held" by auto
  from OnStatusNotification_later [OF held, of Timeout W stamped] a
  show "\<exists>c. OnStatusNotification Timeout W known (Some stamped) =
           Inr (c, StatusNotificationConfirmation) \<and>
         heldTimestamp known \<le> heldTimestamp c"
    by blast
qed

theorem OnStatusNotification_timestamps_ascend_witness:
  "fresh exConnector \<and>
   Timestamp (exStatus ''Available'' (Some 100)) \<noteq> None \<and>
   Timestamp (exStatus ''Preparing'' (Some 90)) \<noteq> None \<and>
   Timestamp (exStatus ''Charging'' (Some 120)) \<noteq> None \<and>
   (\<exists>c cs. runStatusNotifications exTimeout exWaiting exConnector
        (map Some [exStatus ''Available'' (Some 100), exStatus ''Preparing'' (Some 90),
           exStatus ''Charging'' (Some 120)]) = Inr (c # cs) \<and>
      status c = Some (exStatus ''Available'' (Some 100)) \<and>
      (\<forall>d \<in> set (c # cs). heldTimestamp d \<noteq> None) \<and>
      sorted (map heldTimestamp (c # cs))) \<and>
   status exMetered \<noteq> None \<and>
   (\<exists>c. OnStatusNotification exTimeout exWaiting exMetered
        (Some (exStatus ''Finishing'' (Some 90))) =
        Inr (c, StatusNotificationConfirmation) \<and>
      heldTimestamp exMetered \<le> heldTimestamp c)"
proof -
  have h1: "fresh exConnector \<and>
     (\<forall>r \<in> set (exStatus ''Available'' (Some 100) #
         [exStatus ''Preparing'' (Some 90), exStatus ''Charging'' (Some 120)]).
        Timestamp r \<noteq> None)"
    by (simp add: fresh_def ex_defs)
  have h2: "status exMetered \<noteq> None \<and> Timestamp (exStatus ''Finishing'' (Some 90)) \<noteq> None"
    by (simp add: ex_defs)
  from OnStatusNotification_timestamps_ascend [where conn = exConnector
      and request = "exStatus ''Available'' (Some 100)"
      and requests = "[exStatus ''Preparing'' (Some 90), exStatus ''Charging'' (Some 120)]"
      and Timeout = exTimeout and W = exWaiting and known = exMetered
      and stamped = "exStatus ''Finishing'' (Some 90)"] h1 h2
  have "\<exists>c cs. runStatusNotifications exTimeout exWaiting exConnector
        (map Some [exStatus ''Available'' (Some 100), exStatus ''Preparing'' (Some 90),
           exStatus ''Charging'' (Some 120)]) = Inr (c # cs) \<and>
      status c = Some (exStatus ''Available'' (Some 100)) \<and>
      (\<forall>d \<in> set (c # cs). heldTimestamp d \<noteq> None) \<and>
      sorted (map heldTimestamp (c # cs))"
    and "\<exists>c. OnStatusNotification exTimeout exWaiting exMetered
        (Some (exStatus ''Finishing'' (Some 90))) = Inr (c, StatusNotificationConfirmation) \<and>
      heldTimestamp exMetered \<le> heldTimestamp c"
    by blast+
  with h1 h2 show ?thesis by simp
qed

theorem OnStatusNotification_timestamp_regresses:
  "map_sum id (map heldTimestamp)
     (runStatusNotifications exTimeout exWaiting exConnector
        [Some (exStatus ''Available'' (Some 100)), Some (exStatus ''Available'' None),
         Some (exStatus ''Available'' (Some 90))]) =
   Inr [Some 100, None, Some 90]"
  by (simp add: OnStatusNotification_def closeC_def timestampValid_def Now_def resumeAuth_def
      RemoteStartTransactionRequest_def heldTimestamp_def ex_defs)



theorem statusC_closed_twice:
  "runStatusNotifications exTimeout exWaiting exConnector [None, None] =
     Inl CloseOfClosedChannel"
  by (simp add: OnStatusNotification_def closeC_def resumeAuth_def
      RemoteStartTransactionRequest_def ex_defs)

section \<open>Transaction ids\<close>

lemma sint_succ:
  fixes w :: "64 word"
  assumes "sint w < 2 ^ 63 - 1"
  shows "sint (w + 1) = sint w + 1"
proof -
  have lo: "- (2 ^ 63) \<le> sint w"
    using sint_ge [of w] by simp
  have "sint (w + 1) = signed_take_bit 63 (sint w + 1)"
    by (simp add: sint_word_ariths)
  also have "\<dots> = sint w + 1"
    using assms lo by (simp add: signed_take_bit_int_eq_self)
  finally show ?thesis .
qed

lemma OnStartTransaction_id:
  "OnStartTransaction inst conn request = (inst', conn', res) \<Longrightarrow>
   cs_txnId inst' = cs_txnId inst + 1 \<and> STC_TransactionId res = sint (cs_txnId inst + 1) \<and>
   txnId conn' = sint (cs_txnId inst + 1)"
  by (auto simp: OnStartTransaction_def Let_def)

lemma startTransactions_bounds:
  "sint (cs_txnId inst) + int (length calls) < 2 ^ 63 \<Longrightarrow>
   sorted_wrt (<) (startTransactions inst calls) \<and>
   (\<forall>i \<in> set (startTransactions inst calls). sint (cs_txnId inst) < i)"
proof (induction calls arbitrary: inst)
  case Nil
  show ?case by simp
next
  case (Cons call calls)
  obtain conn request where call: "call = (conn, request)" by (cases call)
  obtain inst' conn' res where step: "OnStartTransaction inst conn request = (inst', conn', res)"
    by (cases "OnStartTransaction inst conn request")
  from Cons.prems have small: "sint (cs_txnId inst) < 2 ^ 63 - 1" by simp
  from OnStartTransaction_id [OF step] sint_succ [OF small]
  have next_id: "sint (cs_txnId inst') = sint (cs_txnId inst) + 1"
    and res: "STC_TransactionId res = sint (cs_txnId inst) + 1"
    by simp_all
  from Cons.prems next_id have "sint (cs_txnId inst') + int (length calls) < 2 ^ 63"
    by simp
  from Cons.IH [OF this] next_id res show ?case
    by (auto simp: call step)
qed

lemma runProcess_startTransactions:
  "runProcess (Some inst) (map (\<lambda>(c, r). EvStartTransaction c r) calls) =
     Inr (startTransactions inst calls)"
proof (induction calls arbitrary: inst)
  case Nil
  show ?case by simp
next
  case (Cons call calls)
  obtain c r where call: "call = (c, r)" by (cases call)
  obtain inst' c' res where step: "OnStartTransaction inst c r = (inst', c', res)"
    by (cases "OnStartTransaction inst c r")
  from Cons.IH [of inst'] show ?case
    by (simp add: call step)
qed

text \<open>
  C5, as the code has it. The counter belongs to the instance of the central system, not
  to the process: \<^verbatim>\<open>Start\<close> seeds it from the unix time whenever it makes an instance,
  also after \<^verbatim>\<open>Stop\<close> or \<^verbatim>\<open>Restart\<close> in the same process. An instance started at
  1700000000 issues three ids, a restart one second later seeds 1700000001, and the next
  id is 1700000002 again (the counterexample). What holds: every call sets the counter of
  the instance, the connector's \<open>txnId\<close> and the returned id to the counter plus one
  (as a signed 64-bit value); over any sequence of calls on one instance, on whatever
  connectors, with the counter staying below \<open>2 ^ 63\<close>, the returned ids are strictly
  increasing and all above the value the counter had before; \<^verbatim>\<open>Start\<close> seeds a new
  instance with the unix time and leaves an existing one as it is; \<^verbatim>\<open>Restart\<close> always
  seeds anew from the unix time.
\<close>

theorem OnStartTransaction_ids_ascend:
  "(sint (cs_txnId inst) + int (length calls) < 2 ^ 63 \<longrightarrow>
      sorted_wrt (<) (startTransactions inst calls) \<and>
      (\<forall>i \<in> set (startTransactions inst calls). sint (cs_txnId inst) < i)) \<and>
   fst (snd (OnStartTransaction inst conn request)) =
     conn\<lparr>txnId := sint (cs_txnId inst + 1), idTag := ST_IdTag request\<rparr> \<and>
   cs_txnId (fst (OnStartTransaction inst conn request)) = cs_txnId inst + 1 \<and>
   STC_TransactionId (snd (snd (OnStartTransaction inst conn request))) =
     sint (cs_txnId inst + 1) \<and>
   cs_txnId (Start None now :: 'a CS) = word_of_int (Unix now) \<and>
   Start (Some inst) now = inst \<and>
   cs_txnId (Restart (Some inst) now) = word_of_int (Unix now) \<and>
   runProcess (Some inst) (map (\<lambda>(c, r). EvStartTransaction c r) calls) =
     Inr (startTransactions inst calls)"
  using startTransactions_bounds [of inst calls] runProcess_startTransactions [of inst calls]
  by (simp add: OnStartTransaction_def Let_def Start_def Restart_def Stop_def)

theorem OnStartTransaction_ids_ascend_witness:
  "sint (cs_txnId (Start None 1700000000123456789 :: unit CS)) +
     int (length [(exConnector, exStart), (exMetered, exStart)]) < 2 ^ 63 \<and>
   sorted_wrt (<) (startTransactions (Start None 1700000000123456789 :: unit CS)
     [(exConnector, exStart), (exMetered, exStart)])"
proof -
  have h: "sint (cs_txnId (Start None 1700000000123456789 :: unit CS)) +
     int (length [(exConnector, exStart), (exMetered, exStart)]) < 2 ^ 63"
    by (simp add: Start_def Unix_def)
  from OnStartTransaction_ids_ascend [where inst = "Start None 1700000000123456789 :: unit CS"
      and calls = "[(exConnector, exStart), (exMetered, exStart)]"] h
  show ?thesis by blast
qed

theorem OnStartTransaction_repeats_after_restart:
  "runProcess (None :: unit CS option)
     [EvStart 1700000000000000000,
      EvStartTransaction exConnector exStart, EvStartTransaction exMetered exStart,
      EvStartTransaction exConnector exStart,
      EvRestart 1700000001000000000,
      EvStartTransaction exConnector exStart] =
     Inr [1700000001, 1700000002, 1700000003, 1700000002] \<and>
   map_sum id (sorted_wrt (<)) (runProcess (None :: unit CS option)
     [EvStart 1700000000000000000,
      EvStartTransaction exConnector exStart, EvStartTransaction exMetered exStart,
      EvStartTransaction exConnector exStart,
      EvRestart 1700000001000000000,
      EvStartTransaction exConnector exStart]) = Inr False"
  by (simp add: OnStartTransaction_def Let_def Start_def Restart_def Stop_def Unix_def)

section \<open>Stopping a transaction\<close>

lemma stoppedKeys_explicit:
  "stoppedKeys =
     [(''Power.Active.Import'', ''W''),
      (''Power.Active.Import.L1'', ''W''), (''Power.Active.Import.L1-N'', ''W''),
      (''Current.Import.L1'', ''A''),
      (''Power.Active.Import.L2'', ''W''), (''Power.Active.Import.L2-N'', ''W''),
      (''Current.Import.L2'', ''A''),
      (''Power.Active.Import.L3'', ''W''), (''Power.Active.Import.L3-N'', ''W''),
      (''Current.Import.L3'', ''A'')]"
  by (simp add: stoppedKeys_def getPhaseKey_def Itoa_def digits.simps
      MeasurandPowerActiveImport_def MeasurandCurrentImport_def UnitOfMeasureW_def
      UnitOfMeasureA_def)

lemma distinct_stoppedKeys: "distinct (map fst stoppedKeys)"
  unfolding stoppedKeys_explicit by simp

lemma assumeMeterStopped_zeroAll:
  "measurements (assumeMeterStopped c) = zeroAll (measurements c) stoppedKeys"
  by (simp add: assumeMeterStopped_def Now_def Let_def stopPhase_def zeroAll_def stoppedKeys_def)

lemma zeroIfPresent_apply:
  "zeroIfPresent m k u k' = (if k' = k \<and> m k \<noteq> None then Some (zeroSample u) else m k')"
  by (simp add: zeroIfPresent_def split: option.splits)

lemma zeroAll_apply:
  "distinct (map fst kus) \<Longrightarrow>
   zeroAll m kus k =
     (case map_of kus k of
        None \<Rightarrow> m k
      | Some u \<Rightarrow> if m k = None then None else Some (zeroSample u))"
proof (induction kus arbitrary: m)
  case Nil
  show ?case by (simp add: zeroAll_def)
next
  case (Cons ku kus)
  obtain k0 u0 where ku: "ku = (k0, u0)" by (cases ku)
  from Cons.prems ku have d: "distinct (map fst kus)" and notin: "k0 \<notin> fst ` set kus"
    by simp_all
  have step: "zeroAll m ((k0, u0) # kus) k = zeroAll (zeroIfPresent m k0 u0) kus k"
    by (simp add: zeroAll_def)
  from notin have none: "map_of kus k0 = None"
    by (simp add: map_of_eq_None_iff)
  have "zeroAll m ((k0, u0) # kus) k =
          (case map_of kus k of
             None \<Rightarrow> zeroIfPresent m k0 u0 k
           | Some u \<Rightarrow> if zeroIfPresent m k0 u0 k = None then None else Some (zeroSample u))"
    unfolding step by (rule Cons.IH [OF d])
  also have "\<dots> =
          (case map_of ((k0, u0) # kus) k of
             None \<Rightarrow> m k
           | Some u \<Rightarrow> if m k = None then None else Some (zeroSample u))"
    using none by (auto simp: zeroIfPresent_apply split: option.splits)
  finally show ?case by (simp only: ku)
qed

lemma zeroAll_dom: "distinct (map fst kus) \<Longrightarrow> dom (zeroAll m kus) = dom m"
  by (auto simp: zeroAll_apply dom_def split: option.splits if_splits)

lemma zeroAll_idem:
  assumes "distinct (map fst kus)"
  shows "zeroAll (zeroAll m kus) kus = zeroAll m kus"
proof
  fix k
  show "zeroAll (zeroAll m kus) kus k = zeroAll m kus k"
    by (simp add: zeroAll_apply [OF assms] split: option.splits)
qed

lemma OnStopTransaction_measurements:
  "measurements (fst (OnStopTransaction c r)) = zeroAll (measurements c) stoppedKeys"
  by (simp add: OnStopTransaction_def Let_def assumeMeterStopped_zeroAll)

lemma assumeMeterStopped_fields:
  "txnId (assumeMeterStopped c) = txnId c" "idTag (assumeMeterStopped c) = idTag c"
  by (simp_all add: assumeMeterStopped_def Now_def Let_def)

lemma OnStopTransaction_stoppedKeys:
  "(\<forall>(key, u) \<in> set stoppedKeys.
      measurements conn key \<noteq> None \<longrightarrow>
      measurements (fst (OnStopTransaction conn request)) key = Some (zeroSample u)) \<and>
   (\<forall>key. key \<notin> fst ` set stoppedKeys \<longrightarrow>
      measurements (fst (OnStopTransaction conn request)) key = measurements conn key)"
proof (intro conjI)
  show "\<forall>(key, u) \<in> set stoppedKeys.
      measurements conn key \<noteq> None \<longrightarrow>
      measurements (fst (OnStopTransaction conn request)) key = Some (zeroSample u)"
    by (auto simp: OnStopTransaction_measurements zeroAll_apply [OF distinct_stoppedKeys]
        map_of_is_SomeI [OF distinct_stoppedKeys])
  show "\<forall>key. key \<notin> fst ` set stoppedKeys \<longrightarrow>
      measurements (fst (OnStopTransaction conn request)) key = measurements conn key"
  proof (intro allI impI)
    fix key assume "key \<notin> fst ` set stoppedKeys"
    then have "map_of stoppedKeys key = None"
      by (simp add: map_of_eq_None_iff)
    then show "measurements (fst (OnStopTransaction conn request)) key = measurements conn key"
      by (simp add: OnStopTransaction_measurements zeroAll_apply [OF distinct_stoppedKeys])
  qed
qed

text \<open>
  C4. After \<^verbatim>\<open>OnStopTransaction\<close> the connector's \<open>txnId\<close> is 0 and its \<open>idTag\<close> is
  empty. Each of the ten keys (the active power, the active power of L1 to L3 and of L1-N
  to L3-N, the current of L1 to L3) that was present holds a sample with the value
  \<open>0\<close>, the unit W for the powers and A for the currents, and every other field empty.
  Every other key holds what it held. The set of keys is unchanged, so an absent key
  stays absent. The confirmation has the status Accepted.
\<close>

theorem OnStopTransaction_projection:
  "txnId (fst (OnStopTransaction conn request)) = 0 \<and>
   idTag (fst (OnStopTransaction conn request)) = '''' \<and>
   (\<forall>(key, u) \<in> set
        [(''Power.Active.Import'', ''W''),
         (''Power.Active.Import.L1'', ''W''), (''Power.Active.Import.L1-N'', ''W''),
         (''Power.Active.Import.L2'', ''W''), (''Power.Active.Import.L2-N'', ''W''),
         (''Power.Active.Import.L3'', ''W''), (''Power.Active.Import.L3-N'', ''W''),
         (''Current.Import.L1'', ''A''), (''Current.Import.L2'', ''A''),
         (''Current.Import.L3'', ''A'')].
      measurements conn key \<noteq> None \<longrightarrow>
      measurements (fst (OnStopTransaction conn request)) key =
        Some \<lparr>Value = ''0'', Context = '''', Format = '''', Measurand = '''', Phase = '''',
              Location = '''', Unit = u\<rparr>) \<and>
   (\<forall>key. key \<notin> set
        [''Power.Active.Import'',
         ''Power.Active.Import.L1'', ''Power.Active.Import.L1-N'',
         ''Power.Active.Import.L2'', ''Power.Active.Import.L2-N'',
         ''Power.Active.Import.L3'', ''Power.Active.Import.L3-N'',
         ''Current.Import.L1'', ''Current.Import.L2'', ''Current.Import.L3''] \<longrightarrow>
      measurements (fst (OnStopTransaction conn request)) key = measurements conn key) \<and>
   dom (measurements (fst (OnStopTransaction conn request))) = dom (measurements conn) \<and>
   snd (OnStopTransaction conn request) =
     \<lparr>SPC_IdTagInfo = Some \<lparr>ExpiryDate = None, ParentIdTag = '''', ITI_Status = ''Accepted''\<rparr>\<rparr>"
proof (intro conjI)
  show "txnId (fst (OnStopTransaction conn request)) = 0"
    by (simp add: OnStopTransaction_def Let_def assumeMeterStopped_fields)
  show "idTag (fst (OnStopTransaction conn request)) = ''''"
    by (simp add: OnStopTransaction_def Let_def assumeMeterStopped_fields)
  show "\<forall>(key, u) \<in> set
        [(''Power.Active.Import'', ''W''),
         (''Power.Active.Import.L1'', ''W''), (''Power.Active.Import.L1-N'', ''W''),
         (''Power.Active.Import.L2'', ''W''), (''Power.Active.Import.L2-N'', ''W''),
         (''Power.Active.Import.L3'', ''W''), (''Power.Active.Import.L3-N'', ''W''),
         (''Current.Import.L1'', ''A''), (''Current.Import.L2'', ''A''),
         (''Current.Import.L3'', ''A'')].
      measurements conn key \<noteq> None \<longrightarrow>
      measurements (fst (OnStopTransaction conn request)) key =
        Some \<lparr>Value = ''0'', Context = '''', Format = '''', Measurand = '''', Phase = '''',
              Location = '''', Unit = u\<rparr>"
    using OnStopTransaction_stoppedKeys [of conn request]
    unfolding stoppedKeys_explicit zeroSample_def by simp
  show "\<forall>key. key \<notin> set
        [''Power.Active.Import'',
         ''Power.Active.Import.L1'', ''Power.Active.Import.L1-N'',
         ''Power.Active.Import.L2'', ''Power.Active.Import.L2-N'',
         ''Power.Active.Import.L3'', ''Power.Active.Import.L3-N'',
         ''Current.Import.L1'', ''Current.Import.L2'', ''Current.Import.L3''] \<longrightarrow>
      measurements (fst (OnStopTransaction conn request)) key = measurements conn key"
    using OnStopTransaction_stoppedKeys [of conn request]
    unfolding stoppedKeys_explicit by simp
  show "dom (measurements (fst (OnStopTransaction conn request))) = dom (measurements conn)"
    by (simp add: OnStopTransaction_measurements zeroAll_dom [OF distinct_stoppedKeys])
  show "snd (OnStopTransaction conn request) =
     \<lparr>SPC_IdTagInfo = Some \<lparr>ExpiryDate = None, ParentIdTag = '''', ITI_Status = ''Accepted''\<rparr>\<rparr>"
    by (simp add: OnStopTransaction_def Let_def AuthorizationStatusAccepted_def)
qed

theorem OnStopTransaction_projection_witness:
  "measurements exMetered ''Power.Active.Import'' \<noteq> None \<and>
   measurements (fst (OnStopTransaction exMetered exStop)) ''Power.Active.Import'' =
     Some \<lparr>Value = ''0'', Context = '''', Format = '''', Measurand = '''', Phase = '''',
           Location = '''', Unit = ''W''\<rparr> \<and>
   measurements (fst (OnStopTransaction exMetered exStop)) ''Voltage.L1'' =
     measurements exMetered ''Voltage.L1'' \<and>
   measurements exMetered ''Current.Import.L1'' = None \<and>
   measurements (fst (OnStopTransaction exMetered exStop)) ''Current.Import.L1'' = None \<and>
   txnId (fst (OnStopTransaction exMetered exStop)) = 0"
proof -
  note th = OnStopTransaction_projection [where conn = exMetered and request = exStop]
  have h1: "measurements exMetered ''Power.Active.Import'' \<noteq> None"
    by (simp add: ex_defs)
  have h3: "measurements exMetered ''Current.Import.L1'' = None"
    by (simp add: ex_defs)
  from th h1
  have c1: "measurements (fst (OnStopTransaction exMetered exStop)) ''Power.Active.Import'' =
     Some \<lparr>Value = ''0'', Context = '''', Format = '''', Measurand = '''', Phase = '''',
           Location = '''', Unit = ''W''\<rparr>"
    by simp
  from th
  have "\<forall>key. key \<notin> set
        [''Power.Active.Import'',
         ''Power.Active.Import.L1'', ''Power.Active.Import.L1-N'',
         ''Power.Active.Import.L2'', ''Power.Active.Import.L2-N'',
         ''Power.Active.Import.L3'', ''Power.Active.Import.L3-N'',
         ''Current.Import.L1'', ''Current.Import.L2'', ''Current.Import.L3''] \<longrightarrow>
      measurements (fst (OnStopTransaction exMetered exStop)) key = measurements exMetered key"
    by blast
  then have c2: "measurements (fst (OnStopTransaction exMetered exStop)) ''Voltage.L1'' =
     measurements exMetered ''Voltage.L1''"
    by simp
  from th have "dom (measurements (fst (OnStopTransaction exMetered exStop))) =
     dom (measurements exMetered)"
    by blast
  with h3 have c3: "measurements (fst (OnStopTransaction exMetered exStop)) ''Current.Import.L1'' = None"
    by (metis domIff)
  from th have c4: "txnId (fst (OnStopTransaction exMetered exStop)) = 0"
    by blast
  from h1 c1 c2 h3 c3 c4 show ?thesis by blast
qed

text \<open>
  C8. A second \<^verbatim>\<open>OnStopTransaction\<close> right after a first leaves \<open>txnId\<close> (0), \<open>idTag\<close>
  (empty) and the whole measurement map, keys and stored samples, as the first call left
  them, and returns the same confirmation.
\<close>

theorem OnStopTransaction_twice:
  "txnId (fst (OnStopTransaction (fst (OnStopTransaction conn r1)) r2)) =
     txnId (fst (OnStopTransaction conn r1)) \<and>
   idTag (fst (OnStopTransaction (fst (OnStopTransaction conn r1)) r2)) =
     idTag (fst (OnStopTransaction conn r1)) \<and>
   measurements (fst (OnStopTransaction (fst (OnStopTransaction conn r1)) r2)) =
     measurements (fst (OnStopTransaction conn r1)) \<and>
   snd (OnStopTransaction (fst (OnStopTransaction conn r1)) r2) =
     snd (OnStopTransaction conn r1) \<and>
   txnId (fst (OnStopTransaction conn r1)) = 0 \<and>
   idTag (fst (OnStopTransaction conn r1)) = '''' \<and>
   ITI_Status (the (SPC_IdTagInfo (snd (OnStopTransaction conn r1)))) = ''Accepted''"
proof (intro conjI)
  show "measurements (fst (OnStopTransaction (fst (OnStopTransaction conn r1)) r2)) =
     measurements (fst (OnStopTransaction conn r1))"
    by (simp add: OnStopTransaction_measurements zeroAll_idem [OF distinct_stoppedKeys])
qed (simp_all add: OnStopTransaction_def Let_def assumeMeterStopped_fields
    AuthorizationStatusAccepted_def)

theorem OnStopTransaction_twice_witness:
  "measurements (fst (OnStopTransaction (fst (OnStopTransaction exMetered exStop)) exStop)) =
     measurements (fst (OnStopTransaction exMetered exStop)) \<and>
   txnId (fst (OnStopTransaction (fst (OnStopTransaction exMetered exStop)) exStop)) = 0 \<and>
   idTag (fst (OnStopTransaction (fst (OnStopTransaction exMetered exStop)) exStop)) = ''''"
  using OnStopTransaction_twice [where conn = exMetered and ?r1.0 = exStop and ?r2.0 = exStop]
  by simp

section \<open>The status cache of the dispatcher\<close>

text \<open>
  C3, as the code has it. The cache is written only when the registry has a registration
  for the charger id: a non-nil request for an id without a registration leaves the
  registry as it is (the counterexample). What holds: with a registration for the id and
  a non-nil request, the state in which the charge point is looked up, and which the
  charge point's handler receives, is the given state with the request stored in the
  status cache of that registration under the connector number; when no charge point is
  attached, that state and the plain confirmation are the result.
\<close>

theorem CS_OnStatusNotification_caches_first:
  "regs cs ident = Some reg \<longrightarrow>
     (\<exists>cs1 reg1. regs cs1 ident = Some reg1 \<and> reg_status reg1 (ConnectorId r) = Some r \<and>
        cs1 = cs\<lparr>regs := (regs cs)(ident \<mapsto>
                 reg\<lparr>reg_status := (reg_status reg)(ConnectorId r \<mapsto> r)\<rparr>)\<rparr> \<and>
        CS_OnStatusNotification ChargepointByID cpOnStatusNotification cs ident (Some r) =
          (case ChargepointByID cs1 ident of
             Inr chargepoint \<Rightarrow> cpOnStatusNotification chargepoint cs1 (Some r)
           | Inl err \<Rightarrow> (cs1, Inr StatusNotificationConfirmation)))"
  by (simp add: CS_OnStatusNotification_def cacheStatus_def Let_def)

theorem CS_OnStatusNotification_caches_first_witness:
  "regs exCS ''charger-1'' = Some \<lparr>cp = None, reg_status = Map.empty\<rparr> \<and>
   (\<exists>reg1. regs (fst (CS_OnStatusNotification ChargepointByID_spec exCpHandler exCS
        ''charger-1'' (Some (exStatus ''Available'' (Some 100))))) ''charger-1'' = Some reg1 \<and>
      reg_status reg1 1 = Some (exStatus ''Available'' (Some 100))) \<and>
   snd (CS_OnStatusNotification ChargepointByID_spec exCpHandler exCS ''charger-1''
        (Some (exStatus ''Available'' (Some 100)))) = Inr StatusNotificationConfirmation"
proof -
  have h: "regs exCS ''charger-1'' = Some \<lparr>cp = None, reg_status = Map.empty\<rparr>"
    by (simp add: exCS_def)
  from CS_OnStatusNotification_caches_first [where cs = exCS and ident = "''charger-1''"
      and reg = "\<lparr>cp = None, reg_status = Map.empty\<rparr>"
      and r = "exStatus ''Available'' (Some 100)" and ChargepointByID = ChargepointByID_spec
      and cpOnStatusNotification = exCpHandler] h
  show ?thesis
    by (auto simp: ChargepointByID_spec_def exCS_def exStatus_def)
qed

theorem CS_OnStatusNotification_unregistered:
  "regs exEmptyCS ''charger-1'' = None \<and>
   CS_OnStatusNotification ChargepointByID_spec exCpHandler exEmptyCS ''charger-1''
     (Some (exStatus ''Available'' (Some 100))) =
   (exEmptyCS, Inr StatusNotificationConfirmation)"
  by (simp add: CS_OnStatusNotification_def cacheStatus_def Let_def ChargepointByID_spec_def
      exEmptyCS_def)

section \<open>Vendor telemetry\<close>

lemma Unmarshal_float64_string:
  "parse text = Some (JString s) \<Longrightarrow> Unmarshal_float64 parse text = Inl UnmarshalTypeError"
  by (simp add: Unmarshal_float64_def)

lemma meterParseMasterplug_no_values:
  "Unmarshal_object parse s = Inr obj \<Longrightarrow> fieldValue parse obj ''current'' = 0 \<Longrightarrow>
   fieldValue parse obj ''voltage'' = 0 \<Longrightarrow> meterParseMasterplug parse s = Inl NoValues"
  by (simp add: meterParseMasterplug_def)

lemma CS_OnDataTransfer_error:
  "meterParseMasterplug parse s = Inl err \<Longrightarrow>
   CS_OnDataTransfer parse pkg ident (Some (masterPlugRequest s)) =
     (pkg, \<lparr>DTC_Status = ''Accepted'', DTC_Data = JNull\<rparr>)"
  by (simp add: CS_OnDataTransfer_def masterPlugRequest_def DataTransferStatusAccepted_def)

text \<open>
  With the two values as plain JSON numbers, as in the example of the source's comment,
  the handler makes one call of \<^verbatim>\<open>Update\<close> for the charger, with 4.11 and 249.7.
\<close>

lemma CS_OnDataTransfer_number_payload:
  assumes "parse payloadNumbers =
      Some (JObject [(''current'', JNumber 4110), (''voltage'', JNumber 249700)])"
  shows "CS_OnDataTransfer parse pkg ident (Some (masterPlugRequest payloadNumbers)) =
      (Update pkg ident (411 / 100) (2497 / 10),
       \<lparr>DTC_Status = ''Accepted'', DTC_Data = JNull\<rparr>)"
  using assms
  by (simp add: CS_OnDataTransfer_def masterPlugRequest_def DataTransferStatusAccepted_def
      meterParseMasterplug_def Unmarshal_object_def fieldValue_def Let_def)

text \<open>
  C7, on the code. With the payload of the claim, in which both values are JSON strings,
  the source puts each string between double quotes and unmarshals that text into a
  float64, which the JSON library refuses for every string. Both values stay 0,
  \<^verbatim>\<open>meterParseMasterplug\<close> returns the error \<open>NoValues\<close>, and the handler answers
  Accepted without any call of \<^verbatim>\<open>Update\<close>: the meter package is as it was. The claim
  has one update with 4.11 and 249.7.
\<close>

theorem CS_OnDataTransfer_string_payload:
  \<open>parse payloadStrings =
      Some (JObject [(''current'', JString ''4110''), (''voltage'', JString ''249700'')]) \<and>
    parse ''"4110"'' = Some (JString ''4110'') \<and>
    parse ''"249700"'' = Some (JString ''249700'') \<longrightarrow>
    meterParseMasterplug parse payloadStrings = Inl NoValues \<and>
    CS_OnDataTransfer parse pkg ident (Some (masterPlugRequest payloadStrings)) =
      (pkg, \<lparr>DTC_Status = ''Accepted'', DTC_Data = JNull\<rparr>)\<close>
proof
  assume a: \<open>parse payloadStrings =
      Some (JObject [(''current'', JString ''4110''), (''voltage'', JString ''249700'')]) \<and>
    parse ''"4110"'' = Some (JString ''4110'') \<and>
    parse ''"249700"'' = Some (JString ''249700'')\<close>
  then have obj: "Unmarshal_object parse payloadStrings =
      Inr (map_of (rev [(''current'', JString ''4110''), (''voltage'', JString ''249700'')]))"
    by (simp add: Unmarshal_object_def)
  from a have c: \<open>Unmarshal_float64 parse ''"4110"'' = Inl UnmarshalTypeError\<close>
    and v: \<open>Unmarshal_float64 parse ''"249700"'' = Inl UnmarshalTypeError\<close>
    by (simp_all add: Unmarshal_float64_string)
  have cur: "fieldValue parse
      (map_of (rev [(''current'', JString ''4110''), (''voltage'', JString ''249700'')]))
      ''current'' = 0"
    using c by (simp add: fieldValue_def)
  have volt: "fieldValue parse
      (map_of (rev [(''current'', JString ''4110''), (''voltage'', JString ''249700'')]))
      ''voltage'' = 0"
    using v by (simp add: fieldValue_def)
  have err: "meterParseMasterplug parse payloadStrings = Inl NoValues"
    by (rule meterParseMasterplug_no_values [OF obj cur volt])
  from err CS_OnDataTransfer_error [OF err]
  show "meterParseMasterplug parse payloadStrings = Inl NoValues \<and>
    CS_OnDataTransfer parse pkg ident (Some (masterPlugRequest payloadStrings)) =
      (pkg, \<lparr>DTC_Status = ''Accepted'', DTC_Data = JNull\<rparr>)"
    by simp
qed

theorem CS_OnDataTransfer_string_payload_witness:
  \<open>meterParseMasterplug parseExample payloadStrings = Inl NoValues \<and>
   CS_OnDataTransfer parseExample exPkg ''charger-1''
     (Some (masterPlugRequest payloadStrings)) =
     (exPkg, \<lparr>DTC_Status = ''Accepted'', DTC_Data = JNull\<rparr>)\<close>
proof -
  have h: \<open>parseExample payloadStrings =
      Some (JObject [(''current'', JString ''4110''), (''voltage'', JString ''249700'')]) \<and>
    parseExample ''"4110"'' = Some (JString ''4110'') \<and>
    parseExample ''"249700"'' = Some (JString ''249700'')\<close>
    by (simp add: parseExample_def payloadStrings_def payloadNumbers_def)
  from CS_OnDataTransfer_string_payload [where parse = parseExample and pkg = exPkg
      and ident = "''charger-1''"] h
  show ?thesis by blast
qed

text \<open>
  C10. When the payload of a MasterPlug GetCTClampValue request decodes to an object and
  both \<^verbatim>\<open>current\<close> and \<^verbatim>\<open>voltage\<close> come out as 0, \<^verbatim>\<open>meterParseMasterplug\<close> returns the
  error \<open>NoValues\<close>, the meter package is left as it was (no call of \<^verbatim>\<open>Update\<close>, no
  meter changed), and the answer has the status Accepted. A field comes out as 0 when
  its key is missing, and when it is a string that fails to unmarshal as a number.
\<close>

theorem CS_OnDataTransfer_no_values:
  \<open>(Unmarshal_object parse s = Inr obj \<and> fieldValue parse obj ''current'' = 0 \<and>
      fieldValue parse obj ''voltage'' = 0 \<longrightarrow>
      meterParseMasterplug parse s = Inl NoValues \<and>
      CS_OnDataTransfer parse pkg ident (Some (masterPlugRequest s)) =
        (pkg, \<lparr>DTC_Status = ''Accepted'', DTC_Data = JNull\<rparr>)) \<and>
   (missing key = None \<longrightarrow> fieldValue parse missing key = 0) \<and>
   (quoted key' = Some (JString t) \<and> Unmarshal_float64 parse (''"'' @ t @ ''"'') = Inl err \<longrightarrow>
      fieldValue parse quoted key' = 0)\<close>
proof (intro conjI impI)
  assume a: "Unmarshal_object parse s = Inr obj \<and> fieldValue parse obj ''current'' = 0 \<and>
      fieldValue parse obj ''voltage'' = 0"
  then have err: "meterParseMasterplug parse s = Inl NoValues"
    by (simp add: meterParseMasterplug_no_values)
  then show "meterParseMasterplug parse s = Inl NoValues" .
  from CS_OnDataTransfer_error [OF err]
  show "CS_OnDataTransfer parse pkg ident (Some (masterPlugRequest s)) =
        (pkg, \<lparr>DTC_Status = ''Accepted'', DTC_Data = JNull\<rparr>)" .
next
  assume "missing key = None"
  then show "fieldValue parse missing key = 0"
    by (simp add: fieldValue_def)
next
  assume \<open>quoted key' = Some (JString t) \<and> Unmarshal_float64 parse (''"'' @ t @ ''"'') = Inl err\<close>
  then show "fieldValue parse quoted key' = 0"
    by (simp add: fieldValue_def)
qed

theorem CS_OnDataTransfer_no_values_witness:
  \<open>Unmarshal_object parseExample ''{}'' = Inr Map.empty \<and>
   meterParseMasterplug parseExample ''{}'' = Inl NoValues \<and>
   CS_OnDataTransfer parseExample exPkg ''charger-1'' (Some (masterPlugRequest ''{}'')) =
     (exPkg, \<lparr>DTC_Status = ''Accepted'', DTC_Data = JNull\<rparr>) \<and>
   fieldValue parseExample Map.empty ''current'' = 0 \<and>
   fieldValue parseExample [''current'' \<mapsto> JString ''4110''] ''current'' = 0\<close>
proof -
  have h1: "Unmarshal_object parseExample ''{}'' = Inr Map.empty"
    by (simp add: Unmarshal_object_def parseExample_def payloadStrings_def payloadNumbers_def)
  have h2: "fieldValue parseExample Map.empty ''current'' = 0"
    "fieldValue parseExample Map.empty ''voltage'' = 0"
    by (simp_all add: fieldValue_def)
  have h3: "(Map.empty :: string \<rightharpoonup> json) ''current'' = None"
    by simp
  have h4: \<open>[''current'' \<mapsto> JString ''4110''] ''current'' = Some (JString ''4110'') \<and>
     Unmarshal_float64 parseExample (''"'' @ ''4110'' @ ''"'') = Inl UnmarshalTypeError\<close>
    by (simp add: Unmarshal_float64_def parseExample_def payloadStrings_def payloadNumbers_def)
  from CS_OnDataTransfer_no_values [where parse = parseExample and s = "''{}''"
      and obj = Map.empty and pkg = exPkg and ident = "''charger-1''" and missing = Map.empty
      and key = "''current''" and quoted = "[''current'' \<mapsto> JString ''4110'']"
      and key' = "''current''" and t = "''4110''" and err = UnmarshalTypeError]
    h1 h2 h3 h4
  show ?thesis by blast
qed

end
